theory Spec2Isabelle
  imports Main
begin

section \<open>JavaScript values used by the toolkit\<close>

text \<open>
  \<open>String.prototype.indexOf\<close>: the position of the first occurrence of \<open>sub\<close> in
  \<open>s\<close>, or \<open>-1\<close> when there is none. The source tests the result either with
  \<open>>= 0\<close> or, in some places, for truthiness (a number is truthy unless it is 0).
\<close>

fun indexOf :: "string \<Rightarrow> string \<Rightarrow> int" where
  "indexOf [] sub = (if sub = [] then 0 else -1)"
| "indexOf (c # cs) sub =
     (if take (length sub) (c # cs) = sub then 0
      else (let i = indexOf cs sub in if i < 0 then -1 else i + 1))"

definition truthy_number :: "int \<Rightarrow> bool" where
  "truthy_number n = (n \<noteq> 0)"

text \<open>A string or an optional string in a condition: \<open>undefined\<close> and \<open>""\<close> are falsy.\<close>

definition truthy_string :: "string option \<Rightarrow> bool" where
  "truthy_string t = (case t of None \<Rightarrow> False | Some s \<Rightarrow> s \<noteq> [])"

text \<open>A value interpolated in a template literal: \<open>undefined\<close> prints as \<open>undefined\<close>.\<close>

definition template_string :: "string option \<Rightarrow> string" where
  "template_string t = (case t of None \<Rightarrow> ''undefined'' | Some s \<Rightarrow> s)"

text \<open>An \<open>Error\<close> object (the SDK sets \<open>name\<close> to the error code) and its \<open>toString()\<close>.\<close>

datatype js_error = Error (err_name: string) (err_message: string)

definition toString :: "js_error \<Rightarrow> string" where
  "toString e =
     (if err_name e = [] then err_message e
      else if err_message e = [] then err_name e
      else err_name e @ '': '' @ err_message e)"

text \<open>What a promise is rejected with: an \<open>Error\<close> object or a plain string.\<close>

datatype reason = Err js_error | Str string

text \<open>
  The fate of a promise-returning call. \<open>Resolved\<close> and \<open>Rejected\<close> are the two
  settled states. \<open>Thrown\<close> is an exception that escapes instead of settling a promise (a
  synchronous throw before the promise exists, or a throw inside a node-style callback).
  \<open>Stuck\<close> is a promise that can never settle: an inner promise was rejected and the code
  attached no rejection handler, so neither \<open>resolve\<close> nor \<open>reject\<close> is ever called.
  \<open>Pending\<close> is a promise still waiting for a provider reply when the scripted replies of
  the provider have run out.
\<close>

datatype 'a outcome = Resolved 'a | Rejected reason | Thrown js_error | Stuck | Pending

text \<open>A promise whose rejection nobody handles: \<open>p.then(f)\<close> inside an executor, no \<open>catch\<close>.\<close>

fun unhandled :: "'a outcome \<Rightarrow> 'a outcome" where
  "unhandled (Rejected r) = Stuck"
| "unhandled out = out"

section \<open>Provider calls, replies and the world\<close>

datatype object_id = ObjectId (Key: string) (VersionId: "string option")

record list_objects_output =
  Contents :: "string list option"
  NextContinuationToken :: "string option"

record list_versions_output =
  Versions :: "(string \<times> string) list option"
  NextVersionIdMarker :: "string option"

record stack =
  StackName :: string
  StackStatus :: string
  Outputs :: "(string \<times> string) list"

record describe_stacks_output =
  Stacks :: "stack list"

record change_set =
  cs_StackName :: string
  cs_ChangeSetName :: string
  cs_Status :: string
  cs_StatusReason :: "string option"

record cf_params =
  p_StackName :: string
  p_Capabilities :: "string list"
  p_Parameters :: "(string \<times> string) list"
  p_TemplateURL :: "string option"
  p_TemplateBody :: "string option"
  p_DisableRollback :: "bool option"
  p_ChangeSetName :: "string option"
  p_ChangeSetType :: "string option"

text \<open>
  Every call that leaves the process, every timer and every warning written to the log, in
  the order issued. The progress messages of \<open>logger.info\<close> are not recorded.
\<close>

datatype event =
    S3_upload string string string
  | S3_getBucketVersioning string
  | S3_listObjectsV2 string "string option"
  | S3_listObjectVersions string object_id "string option"
  | S3_deleteObjects string "object_id list"
  | CF_describeStacks string
  | CF_createStack cf_params
  | CF_updateStack cf_params
  | CF_deleteStack string
  | CF_createChangeSet cf_params
  | CF_describeChangeSet "string option" string
  | CF_executeChangeSet string string
  | CF_deleteChangeSet string string
  | Prompt
  | SetTimeout nat
  | Spawn string "string list"
  | Logger_warn_StackDetails describe_stacks_output
  | Logger_warn_ChangeSet change_set

text \<open>
  The world outside the process: the file system, the replies of the object store (a
  function of the request), the replies of the stack provider (describe calls answer from a
  script, one reply per call, so that a status can change between two polls), the
  reviewer's answer, the clock, the outcome of the CLI subprocess; and the trace of the
  calls issued so far.
\<close>

record world =
  trace :: "event list"
  fs_files :: "(string \<times> string) list"
  s3_upload :: "js_error option"
  s3_getBucketVersioning :: "string \<Rightarrow> js_error + string option"
  s3_listObjectsV2 :: "string \<Rightarrow> string option \<Rightarrow> js_error + list_objects_output"
  s3_listObjectVersions ::
    "string \<Rightarrow> object_id \<Rightarrow> string option \<Rightarrow> js_error + list_versions_output"
  s3_deleteObjects :: "string \<Rightarrow> object_id list \<Rightarrow> js_error option"
  cf_describeStacks :: "(js_error + describe_stacks_output) list"
  cf_describeChangeSet :: "(js_error + change_set) list"
  cf_createStack :: "js_error option"
  cf_updateStack :: "js_error option"
  cf_deleteStack :: "js_error option"
  cf_createChangeSet :: "js_error option"
  cf_executeChangeSet :: "js_error option"
  cf_deleteChangeSet :: "js_error option"
  prompt_performUpdate :: bool
  date_now :: nat
  AWS_PROFILE :: string
  AWS_REGION :: string
  cli_stderr :: "string list"
  cli_exit_code :: "int option"

definition emit :: "event \<Rightarrow> world \<Rightarrow> world" where
  "emit e w = w\<lparr>trace := trace w @ [e]\<rparr>"

section \<open>The object store (s3.js)\<close>

definition putS3Object :: "string \<Rightarrow> string \<Rightarrow> string \<Rightarrow> world \<Rightarrow> unit outcome \<times> world" where
  "putS3Object bucket key body w =
     (let w1 = emit (S3_upload bucket key body) w in
      case s3_upload w1 of
        Some err \<Rightarrow> (Rejected (Err err), w1)
      | None \<Rightarrow> (Resolved (), w1))"

definition listObjects ::
  "string \<Rightarrow> string option \<Rightarrow> world \<Rightarrow> list_objects_output outcome \<times> world" where
  "listObjects bucketName continuationToken w =
     (let w1 = emit (S3_listObjectsV2 bucketName continuationToken) w in
      case s3_listObjectsV2 w1 bucketName continuationToken of
        Inl err \<Rightarrow> (Rejected (Err err), w1)
      | Inr data \<Rightarrow> (Resolved data, w1))"

definition listObjectVersions ::
  "string \<Rightarrow> object_id \<Rightarrow> string option \<Rightarrow> world \<Rightarrow> list_versions_output outcome \<times> world" where
  "listObjectVersions bucketName key continuationToken w =
     (let w1 = emit (S3_listObjectVersions bucketName key continuationToken) w in
      case s3_listObjectVersions w1 bucketName key continuationToken of
        Inl err \<Rightarrow> (Rejected (Err err), w1)
      | Inr data \<Rightarrow> (Resolved data, w1))"

definition deleteObjects :: "string \<Rightarrow> object_id list \<Rightarrow> world \<Rightarrow> unit outcome \<times> world" where
  "deleteObjects bucketName objectKeys w =
     (let w1 = emit (S3_deleteObjects bucketName objectKeys) w in
      case s3_deleteObjects w1 bucketName objectKeys of
        Some err \<Rightarrow> (Rejected (Err err), w1)
      | None \<Rightarrow> (Resolved (), w1))"

text \<open>
  \<open>Promise.all\<close>: rejected as soon as one member is rejected, resolved when all are,
  pending otherwise. Where several members are rejected the first of the list is reported
  (in the program, the first in time).
\<close>

definition promise_all :: "'a outcome list \<Rightarrow> 'a list outcome" where
  "promise_all outs =
     (case [e. Thrown e \<leftarrow> outs] of e # _ \<Rightarrow> Thrown e
      | [] \<Rightarrow>
     (case [r. Rejected r \<leftarrow> outs] of r # _ \<Rightarrow> Rejected r
      | [] \<Rightarrow>
     (if Stuck \<in> set outs then Stuck
      else if Pending \<in> set outs then Pending
      else Resolved [v. Resolved v \<leftarrow> outs])))"

text \<open>The inner \<open>listAndDelete\<close> of \<open>deleteVersionedObjects\<close>: one page of one key's versions.\<close>

definition versioned_listAndDelete ::
  "string \<Rightarrow> object_id \<Rightarrow> string option \<Rightarrow> world \<Rightarrow> string option outcome \<times> world" where
  "versioned_listAndDelete bucketName key continuationToken w =
     (case listObjectVersions bucketName key continuationToken w of
        (Resolved data, w1) \<Rightarrow>
          (case Versions data of
             Some vs \<Rightarrow>
               if length vs > 0 then
                 (let keys = map (\<lambda>(k, v). ObjectId k (Some v)) vs in
                  case deleteObjects bucketName keys w1 of
                    (Resolved u, w2) \<Rightarrow> (Resolved (NextVersionIdMarker data), w2)
                  | (Rejected r, w2) \<Rightarrow> (Stuck, w2)
                  | (Thrown e, w2) \<Rightarrow> (Thrown e, w2)
                  | (Stuck, w2) \<Rightarrow> (Stuck, w2)
                  | (Pending, w2) \<Rightarrow> (Pending, w2))
               else (Resolved None, w1)
           | None \<Rightarrow> (Resolved None, w1))
      | (Rejected r, w1) \<Rightarrow> (Rejected r, w1)
      | (Thrown e, w1) \<Rightarrow> (Thrown e, w1)
      | (Stuck, w1) \<Rightarrow> (Stuck, w1)
      | (Pending, w1) \<Rightarrow> (Pending, w1))"

text \<open>The promise built for one key: a first page, and one more when a marker came back.\<close>

definition versioned_key :: "string \<Rightarrow> object_id \<Rightarrow> world \<Rightarrow> unit outcome \<times> world" where
  "versioned_key bucketName key w =
     (case versioned_listAndDelete bucketName key None w of
        (Resolved continuationToken, w1) \<Rightarrow>
          if truthy_string continuationToken then
            (case versioned_listAndDelete bucketName key continuationToken w1 of
               (out, w2) \<Rightarrow> (map_outcome (\<lambda>_. ()) out, w2))
          else (Resolved (), w1)
      | (out, w1) \<Rightarrow> (map_outcome (\<lambda>_. ()) out, w1))"

text \<open>
  The per-key promises run concurrently in the program; the model runs them one key after
  the other, so the trace keeps each key's calls together.
\<close>

fun versioned_keys ::
  "string \<Rightarrow> object_id list \<Rightarrow> world \<Rightarrow> unit outcome list \<times> world" where
  "versioned_keys bucketName [] w = ([], w)"
| "versioned_keys bucketName (key # keys) w =
     (case versioned_key bucketName key w of
        (out, w1) \<Rightarrow>
          (case versioned_keys bucketName keys w1 of
             (outs, w2) \<Rightarrow> (out # outs, w2)))"

definition deleteVersionedObjects ::
  "string \<Rightarrow> object_id list \<Rightarrow> world \<Rightarrow> unit outcome \<times> world" where
  "deleteVersionedObjects bucketName objectKeys w =
     (case versioned_keys bucketName objectKeys w of
        (outs, w1) \<Rightarrow> (map_outcome (\<lambda>_. ()) (promise_all outs), w1))"

text \<open>The inner \<open>listAndDelete\<close> of \<open>emptyBucket\<close>: one page of objects.\<close>

definition listAndDelete ::
  "bool \<Rightarrow> string \<Rightarrow> string option \<Rightarrow> world \<Rightarrow> string option outcome \<times> world" where
  "listAndDelete versioningEnabled bucketName continuationToken w =
     (case listObjects bucketName continuationToken w of
        (Resolved data, w1) \<Rightarrow>
          (case Contents data of
             Some objects \<Rightarrow>
               if length objects > 0 then
                 (let keys = map (\<lambda>k. ObjectId k None) objects in
                  case (if versioningEnabled
                        then deleteVersionedObjects bucketName keys w1
                        else deleteObjects bucketName keys w1) of
                    (Resolved u, w2) \<Rightarrow> (Resolved (NextContinuationToken data), w2)
                  | (Rejected r, w2) \<Rightarrow> (Stuck, w2)
                  | (Thrown e, w2) \<Rightarrow> (Thrown e, w2)
                  | (Stuck, w2) \<Rightarrow> (Stuck, w2)
                  | (Pending, w2) \<Rightarrow> (Pending, w2))
               else (Resolved None, w1)
           | None \<Rightarrow> (Resolved None, w1))
      | (Rejected r, w1) \<Rightarrow> (Rejected r, w1)
      | (Thrown e, w1) \<Rightarrow> (Thrown e, w1)
      | (Stuck, w1) \<Rightarrow> (Stuck, w1)
      | (Pending, w1) \<Rightarrow> (Pending, w1))"

definition emptyBucket :: "string \<Rightarrow> world \<Rightarrow> unit outcome \<times> world" where
  "emptyBucket bucketName w =
     (let w0 = emit (S3_getBucketVersioning bucketName) w in
      case s3_getBucketVersioning w0 bucketName of
        Inl err \<Rightarrow>
          if indexOf (toString err) ''The specified bucket does not exist'' \<ge> 0
          then (Resolved (), w0)
          else (Rejected (Err err), w0)
      | Inr status \<Rightarrow>
          (let versioningEnabled = (status = Some ''Enabled'') in
           case listAndDelete versioningEnabled bucketName None w0 of
             (Resolved continuationToken, w1) \<Rightarrow>
               if truthy_string continuationToken then
                 (case listAndDelete versioningEnabled bucketName continuationToken w1 of
                    (out, w2) \<Rightarrow> (map_outcome (\<lambda>_. ()) out, w2))
               else (Resolved (), w1)
           | (out, w1) \<Rightarrow> (map_outcome (\<lambda>_. ()) out, w1)))"

section \<open>Polling (cloudFormation.js)\<close>

text \<open>
  \<open>p.then(f)\<close>: \<open>f\<close> runs on the value \<open>p\<close> resolves with; a rejection of \<open>p\<close>
  passes through to the promise \<open>then\<close> returns.
\<close>

definition andThen ::
  "'a outcome \<times> world \<Rightarrow> ('a \<Rightarrow> world \<Rightarrow> 'b outcome \<times> world) \<Rightarrow> 'b outcome \<times> world" where
  "andThen p f =
     (case p of
        (Resolved v, w) \<Rightarrow> f v w
      | (Rejected r, w) \<Rightarrow> (Rejected r, w)
      | (Thrown e, w) \<Rightarrow> (Thrown e, w)
      | (Stuck, w) \<Rightarrow> (Stuck, w)
      | (Pending, w) \<Rightarrow> (Pending, w))"

text \<open>A promise used with \<open>then\<close> only, inside an executor: its rejection is lost.\<close>

definition no_catch :: "'a outcome \<times> world \<Rightarrow> 'a outcome \<times> world" where
  "no_catch p = (case p of (out, w) \<Rightarrow> (unhandled out, w))"

definition stack_success :: "string \<Rightarrow> bool" where
  "stack_success status =
     (status = ''CREATE_COMPLETE'' \<or> status = ''UPDATE_COMPLETE'')"

definition stack_failure :: "string \<Rightarrow> bool" where
  "stack_failure status =
     (status = ''ROLLBACK_COMPLETE'' \<or> status = ''CREATE_FAILED'' \<or>
      status = ''UPDATE_FAILED'' \<or> status = ''DELETE_FAILED'' \<or>
      status = ''UPDATE_ROLLBACK_COMPLETE'')"

definition stack_operation_failed :: reason where
  "stack_operation_failed = Err (Error ''Error'' ''Stack operation failed'')"

text \<open>Reading a property of \<open>undefined\<close> throws a \<open>TypeError\<close> that names the property.\<close>

definition cannot_read :: "string \<Rightarrow> js_error" where
  "cannot_read property =
     Error ''TypeError''
       (''Cannot read properties of undefined (reading '' @ [CHR 0x27] @ property @
        [CHR 0x27] @ '')'')"

definition no_first_stack :: js_error where
  "no_first_stack = cannot_read ''StackStatus''"

text \<open>
  \<open>pollStack\<close>: describe the stack, settle on a terminal status, otherwise set a timer of
  5000 ms and describe again. Only \<open>params.StackName\<close> is read.
\<close>

function pollStack ::
  "string \<Rightarrow> world \<Rightarrow> describe_stacks_output option outcome \<times> world" where
  "pollStack stackName w =
     (let w1 = emit (CF_describeStacks stackName) w in
      case cf_describeStacks w1 of
        [] \<Rightarrow> (Pending, w1)
      | reply # replies \<Rightarrow>
          (let w2 = w1\<lparr>cf_describeStacks := replies\<rparr> in
           case reply of
             Inl err \<Rightarrow>
               if indexOf (err_message err) ''does not exist'' \<ge> 0
               then (Resolved None, w2)
               else (Rejected (Err err), w2)
           | Inr data \<Rightarrow>
               (case Stacks data of
                  [] \<Rightarrow> (Thrown no_first_stack, w2)
                | stack # others \<Rightarrow>
                    if stack_success (StackStatus stack) then (Resolved (Some data), w2)
                    else if stack_failure (StackStatus stack)
                    then (Rejected stack_operation_failed, emit (Logger_warn_StackDetails data) w2)
                    else pollStack stackName (emit (SetTimeout 5000) w2))))"
  by pat_completeness auto
termination
  by (relation "measure (\<lambda>(n, w). length (cf_describeStacks w))") (auto simp: emit_def)

declare pollStack.simps [simp del]

definition changeset_success :: "string \<Rightarrow> bool" where
  "changeset_success status =
     (status = ''CREATE_COMPLETE'' \<or> status = ''UPDATE_COMPLETE'' \<or>
      status = ''DELETE_COMPLETE'')"

definition changeset_creation_failed :: reason where
  "changeset_creation_failed = Err (Error ''Error'' ''Changeset creation failed'')"

definition no_status_reason :: js_error where
  "no_status_reason = cannot_read ''indexOf''"

text \<open>
  \<open>pollChangeSet\<close>: the same loop on the change set. Only \<open>params.ChangeSetName\<close> and
  \<open>params.StackName\<close> are read.
\<close>

function pollChangeSet ::
  "string option \<Rightarrow> string \<Rightarrow> world \<Rightarrow> change_set option outcome \<times> world" where
  "pollChangeSet changeSetName stackName w =
     (let w1 = emit (CF_describeChangeSet changeSetName stackName) w in
      case cf_describeChangeSet w1 of
        [] \<Rightarrow> (Pending, w1)
      | reply # replies \<Rightarrow>
          (let w2 = w1\<lparr>cf_describeChangeSet := replies\<rparr> in
           case reply of
             Inl err \<Rightarrow>
               if indexOf (err_message err) ''does not exist'' \<ge> 0
               then (Resolved None, w2)
               else (Rejected (Err err), w2)
           | Inr cs \<Rightarrow>
               if changeset_success (cs_Status cs) then (Resolved (Some cs), w2)
               else if cs_Status cs = ''FAILED'' then
                 (case cs_StatusReason cs of
                    None \<Rightarrow> (Thrown no_status_reason, w2)
                  | Some statusReason \<Rightarrow>
                      if indexOf statusReason ''No updates are to be performed'' \<ge> 0 \<or>
                         indexOf statusReason ''didn't contain changes'' \<ge> 0
                      then (Resolved None, w2)
                      else (Rejected changeset_creation_failed, emit (Logger_warn_ChangeSet cs) w2))
               else pollChangeSet changeSetName stackName (emit (SetTimeout 5000) w2)))"
  by pat_completeness auto
termination
  by (relation "measure (\<lambda>(c, n, w). length (cf_describeChangeSet w))") (auto simp: emit_def)

declare pollChangeSet.simps [simp del]

subsection \<open>The pollers of src/cloudFormation.js\<close>

text \<open>
  The repository holds a second \<open>cloudFormation.js\<close>, under \<open>src/\<close>, whose pollers test
  \<open>indexOf\<close> for truthiness instead of \<open>>= 0\<close>.
\<close>

function src_pollStack ::
  "string \<Rightarrow> world \<Rightarrow> describe_stacks_output option outcome \<times> world" where
  "src_pollStack stackName w =
     (let w1 = emit (CF_describeStacks stackName) w in
      case cf_describeStacks w1 of
        [] \<Rightarrow> (Pending, w1)
      | reply # replies \<Rightarrow>
          (let w2 = w1\<lparr>cf_describeStacks := replies\<rparr> in
           case reply of
             Inl err \<Rightarrow>
               if truthy_number (indexOf (err_message err) ''does not exist'')
               then (Resolved None, w2)
               else (Rejected (Err err), w2)
           | Inr data \<Rightarrow>
               (case Stacks data of
                  [] \<Rightarrow> (Thrown no_first_stack, w2)
                | stack # others \<Rightarrow>
                    if stack_success (StackStatus stack) then (Resolved (Some data), w2)
                    else if stack_failure (StackStatus stack)
                    then (Rejected stack_operation_failed, emit (Logger_warn_StackDetails data) w2)
                    else src_pollStack stackName (emit (SetTimeout 5000) w2))))"
  by pat_completeness auto
termination
  by (relation "measure (\<lambda>(n, w). length (cf_describeStacks w))") (auto simp: emit_def)

declare src_pollStack.simps [simp del]

function src_pollChangeSet ::
  "string option \<Rightarrow> string \<Rightarrow> world \<Rightarrow> change_set option outcome \<times> world" where
  "src_pollChangeSet changeSetName stackName w =
     (let w1 = emit (CF_describeChangeSet changeSetName stackName) w in
      case cf_describeChangeSet w1 of
        [] \<Rightarrow> (Pending, w1)
      | reply # replies \<Rightarrow>
          (let w2 = w1\<lparr>cf_describeChangeSet := replies\<rparr> in
           case reply of
             Inl err \<Rightarrow>
               if truthy_number (indexOf (err_message err) ''does not exist'')
               then (Resolved None, w2)
               else (Rejected (Err err), w2)
           | Inr cs \<Rightarrow>
               if changeset_success (cs_Status cs) then (Resolved (Some cs), w2)
               else if cs_Status cs = ''FAILED'' then
                 (case cs_StatusReason cs of
                    None \<Rightarrow> (Thrown no_status_reason, w2)
                  | Some statusReason \<Rightarrow>
                      if truthy_number (indexOf statusReason ''didn't contain changes'')
                      then (Resolved None, w2)
                      else (Rejected changeset_creation_failed, emit (Logger_warn_ChangeSet cs) w2))
               else src_pollChangeSet changeSetName stackName (emit (SetTimeout 5000) w2)))"
  by pat_completeness auto
termination
  by (relation "measure (\<lambda>(c, n, w). length (cf_describeChangeSet w))") (auto simp: emit_def)

declare src_pollChangeSet.simps [simp del]

section \<open>Stack operations (cloudFormation.js)\<close>

definition createStack ::
  "cf_params \<Rightarrow> world \<Rightarrow> describe_stacks_output option outcome \<times> world" where
  "createStack params w =
     (let params1 = params\<lparr>p_DisableRollback := Some True\<rparr>;
          w1 = emit (CF_createStack params1) w in
      case cf_createStack w1 of
        Some err \<Rightarrow> (Rejected (Err err), w1)
      | None \<Rightarrow> pollStack (p_StackName params1) w1)"

definition updateStack ::
  "cf_params \<Rightarrow> world \<Rightarrow> describe_stacks_output option outcome \<times> world" where
  "updateStack params w =
     (let w1 = emit (CF_updateStack params) w in
      case cf_updateStack w1 of
        Some err \<Rightarrow>
          if indexOf (toString err) ''No updates are to be performed'' \<ge> 0
          then pollStack (p_StackName params) w1
          else (Rejected (Err err), w1)
      | None \<Rightarrow> pollStack (p_StackName params) w1)"

fun decimal :: "nat \<Rightarrow> string" where
  "decimal n =
     (if n < 10 then [char_of (48 + n)]
      else decimal (n div 10) @ [char_of (48 + n mod 10)])"

declare decimal.simps [simp del]

text \<open>
  \<open>(Date.now() / 1000 | 0)\<close>: \<open>date_now\<close> is the clock in milliseconds; the quotient
  is cut to an integer and \<open>| 0\<close> reads it as a signed 32-bit number, which is negative
  from the year 2038 on.
\<close>

definition to_int32 :: "int \<Rightarrow> int" where
  "to_int32 n = (let m = n mod 2 ^ 32 in if m \<ge> 2 ^ 31 then m - 2 ^ 32 else m)"

definition number_string :: "int \<Rightarrow> string" where
  "number_string i = (if i < 0 then ''-'' @ decimal (nat (- i)) else decimal (nat i))"

definition generateChangeSetName :: "world \<Rightarrow> string" where
  "generateChangeSetName w =
     ''cf-utils-cloudformation-upsert-stack-'' @
       number_string (to_int32 (int (date_now w div 1000)))"

definition createChangeSet ::
  "cf_params \<Rightarrow> world \<Rightarrow> change_set option outcome \<times> world" where
  "createChangeSet params w =
     (let w1 = emit (CF_createChangeSet params) w in
      case cf_createChangeSet w1 of
        Some err \<Rightarrow> (Rejected (Err err), w1)
      | None \<Rightarrow> pollChangeSet (p_ChangeSetName params) (p_StackName params) w1)"

definition executeChangeSet ::
  "string \<Rightarrow> string \<Rightarrow> world \<Rightarrow> describe_stacks_output option outcome \<times> world" where
  "executeChangeSet stackName changeSetName w =
     (let w1 = emit (CF_executeChangeSet stackName changeSetName) w in
      case cf_executeChangeSet w1 of
        Some err \<Rightarrow> (Rejected (Err err), w1)
      | None \<Rightarrow> pollStack stackName w1)"

definition deleteChangeSet ::
  "string \<Rightarrow> string \<Rightarrow> world \<Rightarrow> change_set option outcome \<times> world" where
  "deleteChangeSet stackName changeSetName w =
     (let w1 = emit (CF_deleteChangeSet stackName changeSetName) w in
      case cf_deleteChangeSet w1 of
        Some err \<Rightarrow> (Rejected (Err err), w1)
      | None \<Rightarrow> pollChangeSet (Some changeSetName) stackName w1)"

definition applyChangeSet ::
  "cf_params \<Rightarrow> world \<Rightarrow> describe_stacks_output option outcome \<times> world" where
  "applyChangeSet params w =
     andThen (createChangeSet params w)
       (\<lambda>cs w1. case cs of
                  Some c \<Rightarrow> executeChangeSet (cs_StackName c) (cs_ChangeSetName c) w1
                | None \<Rightarrow> (Resolved None, w1))"





text \<open>
  \<open>/.*Bucket$/.test(key)\<close>: the key ends with \<open>Bucket\<close> (the match may start at the
  suffix itself, so what precedes it does not matter).
\<close>

definition names_bucket :: "string \<Rightarrow> bool" where
  "names_bucket outputKey =
     (length outputKey \<ge> 6 \<and> drop (length outputKey - 6) outputKey = ''Bucket'')"

text \<open>
  The emptying operations of \<open>deleteStack\<close> run concurrently in the program; the model
  runs them in the order of the outputs.
\<close>

fun emptyBuckets :: "string list \<Rightarrow> world \<Rightarrow> unit outcome list \<times> world" where
  "emptyBuckets [] w = ([], w)"
| "emptyBuckets (b # bs) w =
     (case emptyBucket b w of
        (out, w1) \<Rightarrow>
          (case emptyBuckets bs w1 of
             (outs, w2) \<Rightarrow> (out # outs, w2)))"

definition deleteStack ::
  "string \<Rightarrow> world \<Rightarrow> describe_stacks_output option outcome \<times> world" where
  "deleteStack name w =
     (let w1 = emit (CF_describeStacks name) w in
      case cf_describeStacks w1 of
        [] \<Rightarrow> (Pending, w1)
      | reply # replies \<Rightarrow>
          (let w2 = w1\<lparr>cf_describeStacks := replies\<rparr> in
           case reply of
             Inl err \<Rightarrow>
               if truthy_number (indexOf (err_message err) ''does not exist'')
               then (Resolved None, w2)
               else (Rejected (Err err), w2)
           | Inr data \<Rightarrow>
               (case Stacks data of
                  [] \<Rightarrow> (Thrown (cannot_read ''Outputs''), w2)
                | stack # others \<Rightarrow>
                    (let buckets = map snd (filter (\<lambda>(k, v). names_bucket k) (Outputs stack)) in
                     case emptyBuckets buckets w2 of
                       (outs, w3) \<Rightarrow>
                         andThen (promise_all outs, w3)
                           (\<lambda>done w4.
                              (let w5 = emit (CF_deleteStack name) w4 in
                               case cf_deleteStack w5 of
                                 Some err \<Rightarrow> (Rejected (Err err), w5)
                               | None \<Rightarrow> pollStack name w5))))))"

section \<open>Upsert (cloudFormation.js)\<close>

definition enoent :: "string \<Rightarrow> js_error" where
  "enoent path =
     Error ''Error'' (''ENOENT: no such file or directory, open '' @ [CHR 0x27] @ path @ [CHR 0x27])"

definition readFileSync :: "string \<Rightarrow> world \<Rightarrow> js_error + string" where
  "readFileSync path w =
     (case map_of (fs_files w) path of
        None \<Rightarrow> Inl (enoent path)
      | Some content \<Rightarrow> Inr content)"

definition existsSync :: "string \<Rightarrow> world \<Rightarrow> bool" where
  "existsSync path w = (map_of (fs_files w) path \<noteq> None)"

text \<open>
  The test \<open>/Transform\"?\s*:\s*\"?AWS::Serverless/\<close>. No step of this expression can
  match in two ways, so it is matched from left to right at each position of the text.
  Characters are the 8-bit characters of \<open>string\<close>.
\<close>

definition is_space :: "char \<Rightarrow> bool" where
  "is_space c = ((of_char c :: nat) \<in> set [9, 10, 11, 12, 13, 32, 160])"

definition skip_quote :: "string \<Rightarrow> string" where
  "skip_quote s = (case s of [] \<Rightarrow> [] | c # cs \<Rightarrow> if c = CHR 0x22 then cs else c # cs)"

definition transform_at :: "string \<Rightarrow> bool" where
  "transform_at s =
     (take 9 s = ''Transform'' \<and>
      (case dropWhile is_space (skip_quote (drop 9 s)) of
         [] \<Rightarrow> False
       | c # cs \<Rightarrow>
           c = CHR '':'' \<and>
           take 15 (skip_quote (dropWhile is_space cs)) = ''AWS::Serverless''))"

fun transform_test :: "string \<Rightarrow> bool" where
  "transform_test [] = transform_at []"
| "transform_test (c # cs) = (transform_at (c # cs) \<or> transform_test cs)"

record upsert_options =
  review :: "bool option"
  s3Bucket :: "string option"
  s3Prefix :: "string option"
  containsTransforms :: "bool option"

text \<open>The fourth argument: a boolean (the former \<open>review\<close> flag), an object, or nothing.\<close>

datatype options_arg = Flag bool | Options upsert_options | Missing

definition normalize_options :: "options_arg \<Rightarrow> upsert_options" where
  "normalize_options arg =
     (case arg of
        Flag b \<Rightarrow> \<lparr>review = Some b, s3Bucket = None, s3Prefix = None, containsTransforms = None\<rparr>
      | Options options \<Rightarrow> options
      | Missing \<Rightarrow> \<lparr>review = None, s3Bucket = None, s3Prefix = None, containsTransforms = None\<rparr>)"

definition executeUpdate ::
  "bool \<Rightarrow> cf_params \<Rightarrow> world \<Rightarrow> describe_stacks_output option outcome \<times> world" where
  "executeUpdate transforms params w =
     (if transforms then
        applyChangeSet
          (params\<lparr>p_DisableRollback := None,
                  p_ChangeSetName := Some (generateChangeSetName w),
                  p_ChangeSetType := Some ''UPDATE''\<rparr>) w
      else updateStack params w)"

definition reviewer_rejected :: reason where
  "reviewer_rejected = Str ''Reviewer rejected stack update''"

text \<open>The callback of the \<open>describeStacks\<close> probe: an error means the stack is absent.\<close>

definition upsertStack_probe ::
  "upsert_options \<Rightarrow> bool \<Rightarrow> cf_params \<Rightarrow> world \<Rightarrow>
     describe_stacks_output option outcome \<times> world" where
  "upsertStack_probe options transforms params w =
     (let w1 = emit (CF_describeStacks (p_StackName params)) w in
      case cf_describeStacks w1 of
        [] \<Rightarrow> (Pending, w1)
      | reply # replies \<Rightarrow>
          (let w2 = w1\<lparr>cf_describeStacks := replies\<rparr> in
           case reply of
             Inl err \<Rightarrow>
               if transforms then
                 applyChangeSet
                   (params\<lparr>p_DisableRollback := None,
                           p_ChangeSetName := Some (generateChangeSetName w2),
                           p_ChangeSetType := Some ''CREATE''\<rparr>) w2
               else createStack params w2
           | Inr data \<Rightarrow>
               if review options = Some True then
                 (let preview = ''cf-utils-'' @ p_StackName params @ ''-preview'' in
                  andThen (no_catch (createChangeSet (params\<lparr>p_ChangeSetName := Some preview\<rparr>) w2))
                    (\<lambda>cs w3.
                       case cs of
                         Some c \<Rightarrow>
                           andThen
                             (no_catch (deleteChangeSet (p_StackName params) preview (emit Prompt w3)))
                             (\<lambda>deleted w4.
                                if prompt_performUpdate w4
                                then executeUpdate transforms params w4
                                else (Rejected reviewer_rejected, w4))
                       | None \<Rightarrow> pollStack (p_StackName params) w3))
               else executeUpdate transforms params w2))"

text \<open>The executor of the promise \<open>upsertStack\<close> returns when no bucket is given.\<close>

definition does_not_exist :: "string \<Rightarrow> reason" where
  "does_not_exist script = Err (Error ''Error'' (script @ '' does not exist!''))"

definition upsertStack_promise ::
  "string \<Rightarrow> string \<Rightarrow> (string \<times> string) list \<Rightarrow> upsert_options \<Rightarrow> bool \<Rightarrow> world \<Rightarrow>
     describe_stacks_output option outcome \<times> world" where
  "upsertStack_promise name script parameters options transforms w =
     (let params =
            \<lparr>p_StackName = name,
             p_Capabilities = [''CAPABILITY_IAM'', ''CAPABILITY_NAMED_IAM'', ''CAPABILITY_AUTO_EXPAND''],
             p_Parameters = parameters,
             p_TemplateURL = None, p_TemplateBody = None, p_DisableRollback = None,
             p_ChangeSetName = None, p_ChangeSetType = None\<rparr> in
      if take 10 script = ''https://s3''
      then upsertStack_probe options transforms (params\<lparr>p_TemplateURL := Some script\<rparr>) w
      else if \<not> existsSync script w then (Rejected (does_not_exist script), w)
      else
        (case readFileSync script w of
           Inl e \<Rightarrow> (Rejected (Err e), w)
         | Inr body \<Rightarrow>
             upsertStack_probe options transforms (params\<lparr>p_TemplateBody := Some body\<rparr>) w))"

text \<open>
  \<open>upsertStack\<close>. \<open>fs.readFileSync\<close> runs before any promise exists, so its exception is
  thrown to the caller. With a bucket, the template is uploaded and \<open>upsertStack\<close> calls
  itself on the URL, with options that name no bucket.
\<close>

function upsertStack ::
  "string \<Rightarrow> string \<Rightarrow> (string \<times> string) list \<Rightarrow> options_arg \<Rightarrow> world \<Rightarrow>
     describe_stacks_output option outcome \<times> world" where
  "upsertStack name script parameters arg w =
     (let options = normalize_options arg in
      case (case containsTransforms options of
              Some b \<Rightarrow> Inr b
            | None \<Rightarrow> map_sum id transform_test (readFileSync script w)) of
        Inl e \<Rightarrow> (Thrown e, w)
      | Inr transforms \<Rightarrow>
          if truthy_string (s3Bucket options) then
            (case putS3Object (template_string (s3Bucket options))
                    (template_string (s3Prefix options) @ script) script w of
               (Resolved uploaded, w1) \<Rightarrow>
                 upsertStack name
                   (''https://s3.amazonaws.com/'' @ template_string (s3Bucket options) @ ''/'' @
                      template_string (s3Prefix options) @ script)
                   parameters
                   (Options \<lparr>review = Some (review options = Some True), s3Bucket = None,
                             s3Prefix = None, containsTransforms = Some transforms\<rparr>)
                   w1
             | (Rejected r, w1) \<Rightarrow> (Rejected r, w1)
             | (Thrown e, w1) \<Rightarrow> (Thrown e, w1)
             | (Stuck, w1) \<Rightarrow> (Stuck, w1)
             | (Pending, w1) \<Rightarrow> (Pending, w1))
          else upsertStack_promise name script parameters options transforms w)"
  by pat_completeness auto
termination
  by (relation "measure (\<lambda>(n, s, ps, arg, w).
        if truthy_string (s3Bucket (normalize_options arg)) then 1 else 0)")
     (auto simp: normalize_options_def truthy_string_def)

declare upsertStack.simps [simp del]

section \<open>Observations and scenarios\<close>

text \<open>A describe reply that shows an operation still in progress: no terminal status.\<close>

definition stack_in_progress :: "js_error + describe_stacks_output \<Rightarrow> bool" where
  "stack_in_progress reply =
     (case reply of
        Inl err \<Rightarrow> False
      | Inr data \<Rightarrow>
          (case Stacks data of
             [] \<Rightarrow> False
           | stack # others \<Rightarrow>
               \<not> stack_success (StackStatus stack) \<and> \<not> stack_failure (StackStatus stack)))"

definition changeset_in_progress :: "js_error + change_set \<Rightarrow> bool" where
  "changeset_in_progress reply =
     (case reply of
        Inl err \<Rightarrow> False
      | Inr cs \<Rightarrow> \<not> changeset_success (cs_Status cs) \<and> cs_Status cs \<noteq> ''FAILED'')"

text \<open>The trace of \<open>k\<close> rounds of polling: a describe call, then the 5000 ms timer.\<close>

definition stack_polls :: "string \<Rightarrow> nat \<Rightarrow> event list" where
  "stack_polls stackName k = concat (replicate k [CF_describeStacks stackName, SetTimeout 5000])"

definition changeset_polls :: "string option \<Rightarrow> string \<Rightarrow> nat \<Rightarrow> event list" where
  "changeset_polls changeSetName stackName k =
     concat (replicate k [CF_describeChangeSet changeSetName stackName, SetTimeout 5000])"

text \<open>The number of list calls and of delete-batch calls in a trace.\<close>

definition list_calls :: "event list \<Rightarrow> nat" where
  "list_calls events = length [t. S3_listObjectsV2 b t \<leftarrow> events]"

definition delete_calls :: "event list \<Rightarrow> nat" where
  "delete_calls events = length [ks. S3_deleteObjects b ks \<leftarrow> events]"

text \<open>A world in which nothing exists and every call succeeds.\<close>

definition quiet :: world where
  "quiet =
     \<lparr>trace = [], fs_files = [], s3_upload = None,
      s3_getBucketVersioning = (\<lambda>b. Inr None),
      s3_listObjectsV2 = (\<lambda>b t. Inr \<lparr>Contents = Some [], NextContinuationToken = None\<rparr>),
      s3_listObjectVersions = (\<lambda>b k t. Inr \<lparr>Versions = Some [], NextVersionIdMarker = None\<rparr>),
      s3_deleteObjects = (\<lambda>b ks. None),
      cf_describeStacks = [], cf_describeChangeSet = [],
      cf_createStack = None, cf_updateStack = None, cf_deleteStack = None,
      cf_createChangeSet = None, cf_executeChangeSet = None, cf_deleteChangeSet = None,
      prompt_performUpdate = False, date_now = 1700000000000,
      AWS_PROFILE = ''default'', AWS_REGION = ''us-east-1'',
      cli_stderr = [], cli_exit_code = Some 0\<rparr>"

definition described :: "string \<Rightarrow> (string \<times> string) list \<Rightarrow> describe_stacks_output" where
  "described status outputs =
     \<lparr>Stacks = [\<lparr>StackName = ''app-stack'', StackStatus = status, Outputs = outputs\<rparr>]\<rparr>"

text \<open>A bucket of 2042 objects, listed in pages of 1000, 1000 and 42.\<close>

definition page :: "nat \<Rightarrow> nat \<Rightarrow> string list" where
  "page first n = map (\<lambda>i. ''object-'' @ decimal i) [first..<first + n]"

definition three_pages :: world where
  "three_pages =
     quiet\<lparr>s3_listObjectsV2 := (\<lambda>b t.
        if t = None
        then Inr \<lparr>Contents = Some (page 0 1000), NextContinuationToken = Some ''t1''\<rparr>
        else if t = Some ''t1''
        then Inr \<lparr>Contents = Some (page 1000 1000), NextContinuationToken = Some ''t2''\<rparr>
        else if t = Some ''t2''
        then Inr \<lparr>Contents = Some (page 2000 42), NextContinuationToken = None\<rparr>
        else Inr \<lparr>Contents = Some [], NextContinuationToken = None\<rparr>)\<rparr>"

text \<open>Two stacks whose creation failed, with different details.\<close>

definition create_failed :: world where
  "create_failed = quiet\<lparr>cf_describeStacks := [Inr (described ''CREATE_FAILED'' [])]\<rparr>"

definition create_failed_with_outputs :: world where
  "create_failed_with_outputs =
     quiet\<lparr>cf_describeStacks := [Inr (described ''CREATE_FAILED'' [(''LogsBucket'', ''logs'')])]\<rparr>"

definition update_complete :: world where
  "update_complete = quiet\<lparr>cf_describeStacks := [Inr (described ''UPDATE_COMPLETE'' [])]\<rparr>"

text \<open>A stack that is being created, and a change set that is being created.\<close>

definition a_change_set :: "string \<Rightarrow> string option \<Rightarrow> change_set" where
  "a_change_set status why =
     \<lparr>cs_StackName = ''app-stack'', cs_ChangeSetName = ''cf-utils-app-stack-preview'',
      cs_Status = status, cs_StatusReason = why\<rparr>"

definition creating :: world where
  "creating =
     quiet\<lparr>cf_describeStacks :=
             [Inr (described ''CREATE_IN_PROGRESS'' []), Inr (described ''CREATE_IN_PROGRESS'' []),
              Inr (described ''CREATE_COMPLETE'' [])],
           cf_describeChangeSet :=
             [Inr (a_change_set ''CREATE_PENDING'' None),
              Inr (a_change_set ''CREATE_IN_PROGRESS'' None),
              Inr (a_change_set ''CREATE_COMPLETE'' None)]\<rparr>"

text \<open>A change set that failed because the template is broken.\<close>

definition changeset_failed :: world where
  "changeset_failed =
     quiet\<lparr>cf_describeChangeSet :=
             [Inr (a_change_set ''FAILED'' (Some ''Template format error: unresolved resource''))]\<rparr>"

text \<open>
  An existing stack without drift, reviewed: the preview change set fails with the
  provider's "didn't contain changes" reason.
\<close>

definition no_changes :: string where
  "no_changes = ''The submitted information didn't contain changes.''"

definition review_without_drift :: world where
  "review_without_drift =
     quiet\<lparr>fs_files := [(''template.json'', ''{}'')],
           cf_describeStacks :=
             [Inr (described ''UPDATE_COMPLETE'' []), Inr (described ''UPDATE_COMPLETE'' [])],
           cf_describeChangeSet := [Inr (a_change_set ''FAILED'' (Some no_changes))]\<rparr>"

definition review_options :: options_arg where
  "review_options =
     Options \<lparr>review = Some True, s3Bucket = None, s3Prefix = None, containsTransforms = None\<rparr>"

definition preview_params :: cf_params where
  "preview_params =
     \<lparr>p_StackName = ''app-stack'',
      p_Capabilities = [''CAPABILITY_IAM'', ''CAPABILITY_NAMED_IAM'', ''CAPABILITY_AUTO_EXPAND''],
      p_Parameters = [],
      p_TemplateURL = None, p_TemplateBody = Some ''{}'', p_DisableRollback = None,
      p_ChangeSetName = Some ''cf-utils-app-stack-preview'', p_ChangeSetType = None\<rparr>"

text \<open>A describe call that is throttled.\<close>

definition throttled :: world where
  "throttled = quiet\<lparr>cf_describeStacks := [Inl (Error ''Throttling'' ''Rate exceeded'')]\<rparr>"



definition bucket_only_options :: options_arg where
  "bucket_only_options =
     Options \<lparr>review = None, s3Bucket = Some ''templates'', s3Prefix = None,
              containsTransforms = None\<rparr>"

definition with_template :: world where
  "with_template = quiet\<lparr>fs_files := [(''template.json'', ''{}'')]\<rparr>"







text \<open>A new stack whose template is staged in a bucket, with no prefix given.\<close>

definition staging_new_stack :: world where
  "staging_new_stack =
     with_template
       \<lparr>cf_describeStacks :=
          [Inl (Error ''ValidationError'' ''Stack with id app-stack does not exist''),
           Inr (described ''CREATE_COMPLETE'' [])]\<rparr>"

definition staged_params :: cf_params where
  "staged_params =
     \<lparr>p_StackName = ''app-stack'',
      p_Capabilities = [''CAPABILITY_IAM'', ''CAPABILITY_NAMED_IAM'', ''CAPABILITY_AUTO_EXPAND''],
      p_Parameters = [],
      p_TemplateURL = Some ''https://s3.amazonaws.com/templates/undefinedtemplate.json'',
      p_TemplateBody = None, p_DisableRollback = Some True,
      p_ChangeSetName = None, p_ChangeSetType = None\<rparr>"

section \<open>Properties\<close>

subsection \<open>Substrings\<close>




subsection \<open>One round of polling\<close>

lemma pollStack_in_progress_step:
  assumes "cf_describeStacks w = reply # replies" and "stack_in_progress reply"
  shows "pollStack n w =
         pollStack n (w\<lparr>trace := trace w @ [CF_describeStacks n, SetTimeout 5000],
                        cf_describeStacks := replies\<rparr>)"
  using assms
  by (subst pollStack.simps)
     (auto simp: stack_in_progress_def emit_def Let_def split: sum.splits list.splits
           intro!: arg_cong[where f="pollStack n"])

lemma pollStack_in_progress_prefix:
  "cf_describeStacks w = pre @ rest \<Longrightarrow> \<forall>r\<in>set pre. stack_in_progress r \<Longrightarrow>
   pollStack n w =
   pollStack n (w\<lparr>trace := trace w @ stack_polls n (length pre), cf_describeStacks := rest\<rparr>)"
proof (induction pre arbitrary: w)
  case Nil
  then have "w\<lparr>trace := trace w @ stack_polls n (length []), cf_describeStacks := rest\<rparr> = w"
    by (simp add: stack_polls_def)
  then show ?case by simp
next
  case (Cons r pre)
  let ?w1 = "w\<lparr>trace := trace w @ [CF_describeStacks n, SetTimeout 5000],
                cf_describeStacks := pre @ rest\<rparr>"
  have "pollStack n w = pollStack n ?w1"
    using Cons.prems by (intro pollStack_in_progress_step) auto
  also have "\<dots> = pollStack n (?w1\<lparr>trace := trace ?w1 @ stack_polls n (length pre),
                                     cf_describeStacks := rest\<rparr>)"
    using Cons.prems by (intro Cons.IH) auto
  finally show ?case by (simp add: stack_polls_def)
qed

lemma pollStack_out_of_replies:
  "cf_describeStacks w = [] \<Longrightarrow> pollStack n w = (Pending, emit (CF_describeStacks n) w)"
  by (subst pollStack.simps) (simp add: emit_def)

lemma pollStack_terminal:
  assumes "cf_describeStacks w = Inr data # replies" and "Stacks data = st # others"
  shows "stack_success (StackStatus st) \<Longrightarrow>
           pollStack n w =
           (Resolved (Some data),
            w\<lparr>trace := trace w @ [CF_describeStacks n], cf_describeStacks := replies\<rparr>)"
    and "stack_failure (StackStatus st) \<Longrightarrow>
           pollStack n w =
           (Rejected (Err (Error ''Error'' ''Stack operation failed'')),
            w\<lparr>trace := trace w @ [CF_describeStacks n, Logger_warn_StackDetails data],
              cf_describeStacks := replies\<rparr>)"
  using assms
  by (subst pollStack.simps;
      auto simp: emit_def Let_def stack_success_def stack_failure_def stack_operation_failed_def)+

lemma src_pollStack_in_progress_step:
  assumes "cf_describeStacks w = reply # replies" and "stack_in_progress reply"
  shows "src_pollStack n w =
         src_pollStack n (w\<lparr>trace := trace w @ [CF_describeStacks n, SetTimeout 5000],
                        cf_describeStacks := replies\<rparr>)"
  using assms
  by (subst src_pollStack.simps)
     (auto simp: stack_in_progress_def emit_def Let_def split: sum.splits list.splits
           intro!: arg_cong[where f="src_pollStack n"])

lemma src_pollStack_in_progress_prefix:
  "cf_describeStacks w = pre @ rest \<Longrightarrow> \<forall>r\<in>set pre. stack_in_progress r \<Longrightarrow>
   src_pollStack n w =
   src_pollStack n (w\<lparr>trace := trace w @ stack_polls n (length pre), cf_describeStacks := rest\<rparr>)"
proof (induction pre arbitrary: w)
  case Nil
  then have "w\<lparr>trace := trace w @ stack_polls n (length []), cf_describeStacks := rest\<rparr> = w"
    by (simp add: stack_polls_def)
  then show ?case by simp
next
  case (Cons r pre)
  let ?w1 = "w\<lparr>trace := trace w @ [CF_describeStacks n, SetTimeout 5000],
                cf_describeStacks := pre @ rest\<rparr>"
  have "src_pollStack n w = src_pollStack n ?w1"
    using Cons.prems by (intro src_pollStack_in_progress_step) auto
  also have "\<dots> = src_pollStack n (?w1\<lparr>trace := trace ?w1 @ stack_polls n (length pre),
                                     cf_describeStacks := rest\<rparr>)"
    using Cons.prems by (intro Cons.IH) auto
  finally show ?case by (simp add: stack_polls_def)
qed

lemma src_pollStack_out_of_replies:
  "cf_describeStacks w = [] \<Longrightarrow> src_pollStack n w = (Pending, emit (CF_describeStacks n) w)"
  by (subst src_pollStack.simps) (simp add: emit_def)

lemma src_pollStack_terminal:
  assumes "cf_describeStacks w = Inr data # replies" and "Stacks data = st # others"
  shows "stack_success (StackStatus st) \<Longrightarrow>
           src_pollStack n w =
           (Resolved (Some data),
            w\<lparr>trace := trace w @ [CF_describeStacks n], cf_describeStacks := replies\<rparr>)"
    and "stack_failure (StackStatus st) \<Longrightarrow>
           src_pollStack n w =
           (Rejected (Err (Error ''Error'' ''Stack operation failed'')),
            w\<lparr>trace := trace w @ [CF_describeStacks n, Logger_warn_StackDetails data],
              cf_describeStacks := replies\<rparr>)"
  using assms
  by (subst src_pollStack.simps;
      auto simp: emit_def Let_def stack_success_def stack_failure_def stack_operation_failed_def)+

lemma pollChangeSet_in_progress_step:
  assumes "cf_describeChangeSet w = reply # replies" and "changeset_in_progress reply"
  shows "pollChangeSet c n w =
         pollChangeSet c n (w\<lparr>trace := trace w @ [CF_describeChangeSet c n, SetTimeout 5000],
                        cf_describeChangeSet := replies\<rparr>)"
  using assms
  by (subst pollChangeSet.simps)
     (auto simp: changeset_in_progress_def emit_def Let_def split: sum.splits
           intro!: arg_cong[where f="pollChangeSet c n"])

lemma pollChangeSet_in_progress_prefix:
  "cf_describeChangeSet w = pre @ rest \<Longrightarrow> \<forall>r\<in>set pre. changeset_in_progress r \<Longrightarrow>
   pollChangeSet c n w =
   pollChangeSet c n (w\<lparr>trace := trace w @ changeset_polls c n (length pre),
                  cf_describeChangeSet := rest\<rparr>)"
proof (induction pre arbitrary: w)
  case Nil
  then have "w\<lparr>trace := trace w @ changeset_polls c n (length []),
               cf_describeChangeSet := rest\<rparr> = w"
    by (simp add: changeset_polls_def)
  then show ?case by simp
next
  case (Cons r pre)
  let ?w1 = "w\<lparr>trace := trace w @ [CF_describeChangeSet c n, SetTimeout 5000],
                cf_describeChangeSet := pre @ rest\<rparr>"
  have "pollChangeSet c n w = pollChangeSet c n ?w1"
    using Cons.prems by (intro pollChangeSet_in_progress_step) auto
  also have "\<dots> = pollChangeSet c n (?w1\<lparr>trace := trace ?w1 @ changeset_polls c n (length pre),
                                     cf_describeChangeSet := rest\<rparr>)"
    using Cons.prems by (intro Cons.IH) auto
  finally show ?case by (simp add: changeset_polls_def)
qed

lemma pollChangeSet_out_of_replies:
  "cf_describeChangeSet w = [] \<Longrightarrow>
   pollChangeSet c n w = (Pending, emit (CF_describeChangeSet c n) w)"
  by (subst pollChangeSet.simps) (simp add: emit_def)

lemma src_pollChangeSet_in_progress_step:
  assumes "cf_describeChangeSet w = reply # replies" and "changeset_in_progress reply"
  shows "src_pollChangeSet c n w =
         src_pollChangeSet c n (w\<lparr>trace := trace w @ [CF_describeChangeSet c n, SetTimeout 5000],
                        cf_describeChangeSet := replies\<rparr>)"
  using assms
  by (subst src_pollChangeSet.simps)
     (auto simp: changeset_in_progress_def emit_def Let_def split: sum.splits
           intro!: arg_cong[where f="src_pollChangeSet c n"])

lemma src_pollChangeSet_in_progress_prefix:
  "cf_describeChangeSet w = pre @ rest \<Longrightarrow> \<forall>r\<in>set pre. changeset_in_progress r \<Longrightarrow>
   src_pollChangeSet c n w =
   src_pollChangeSet c n (w\<lparr>trace := trace w @ changeset_polls c n (length pre),
                  cf_describeChangeSet := rest\<rparr>)"
proof (induction pre arbitrary: w)
  case Nil
  then have "w\<lparr>trace := trace w @ changeset_polls c n (length []),
               cf_describeChangeSet := rest\<rparr> = w"
    by (simp add: changeset_polls_def)
  then show ?case by simp
next
  case (Cons r pre)
  let ?w1 = "w\<lparr>trace := trace w @ [CF_describeChangeSet c n, SetTimeout 5000],
                cf_describeChangeSet := pre @ rest\<rparr>"
  have "src_pollChangeSet c n w = src_pollChangeSet c n ?w1"
    using Cons.prems by (intro src_pollChangeSet_in_progress_step) auto
  also have "\<dots> = src_pollChangeSet c n (?w1\<lparr>trace := trace ?w1 @ changeset_polls c n (length pre),
                                     cf_describeChangeSet := rest\<rparr>)"
    using Cons.prems by (intro Cons.IH) auto
  finally show ?case by (simp add: changeset_polls_def)
qed

lemma src_pollChangeSet_out_of_replies:
  "cf_describeChangeSet w = [] \<Longrightarrow>
   src_pollChangeSet c n w = (Pending, emit (CF_describeChangeSet c n) w)"
  by (subst src_pollChangeSet.simps) (simp add: emit_def)

lemma pollChangeSet_settled:
  assumes "cf_describeChangeSet w = Inr cs # replies"
  shows "changeset_success (cs_Status cs) \<Longrightarrow>
           pollChangeSet c n w =
           (Resolved (Some cs),
            w\<lparr>trace := trace w @ [CF_describeChangeSet c n], cf_describeChangeSet := replies\<rparr>)"
    and "cs_Status cs = ''FAILED'' \<Longrightarrow> cs_StatusReason cs = Some why \<Longrightarrow>
         0 \<le> indexOf why ''No updates are to be performed'' \<or>
         0 \<le> indexOf why ''didn't contain changes'' \<Longrightarrow>
           pollChangeSet c n w =
           (Resolved None,
            w\<lparr>trace := trace w @ [CF_describeChangeSet c n], cf_describeChangeSet := replies\<rparr>)"
    and "cs_Status cs = ''FAILED'' \<Longrightarrow> cs_StatusReason cs = Some why \<Longrightarrow>
         \<not> 0 \<le> indexOf why ''No updates are to be performed'' \<Longrightarrow>
         \<not> 0 \<le> indexOf why ''didn't contain changes'' \<Longrightarrow>
           pollChangeSet c n w =
           (Rejected (Err (Error ''Error'' ''Changeset creation failed'')),
            w\<lparr>trace := trace w @ [CF_describeChangeSet c n, Logger_warn_ChangeSet cs],
              cf_describeChangeSet := replies\<rparr>)"
  using assms
  by (subst pollChangeSet.simps;
      auto simp: emit_def Let_def changeset_success_def changeset_creation_failed_def)+

lemma src_pollChangeSet_failed:
  assumes "cf_describeChangeSet w = Inr cs # replies"
      and "cs_Status cs = ''FAILED''" and "cs_StatusReason cs = Some why"
  shows "src_pollChangeSet c n w =
         (if indexOf why ''didn't contain changes'' \<noteq> 0
          then (Resolved None,
                w\<lparr>trace := trace w @ [CF_describeChangeSet c n], cf_describeChangeSet := replies\<rparr>)
          else (Rejected (Err (Error ''Error'' ''Changeset creation failed'')),
                w\<lparr>trace := trace w @ [CF_describeChangeSet c n, Logger_warn_ChangeSet cs],
                  cf_describeChangeSet := replies\<rparr>))"
  using assms
  by (subst src_pollChangeSet.simps)
     (auto simp: emit_def Let_def changeset_success_def changeset_creation_failed_def
        truthy_number_def)

subsection \<open>Calls counted in a trace\<close>

lemma list_calls_simps [simp]:
  "list_calls [] = 0"
  "list_calls (xs @ ys) = list_calls xs + list_calls ys"
  "list_calls (S3_listObjectsV2 b t # xs) = Suc (list_calls xs)"
  "list_calls (S3_deleteObjects b ks # xs) = list_calls xs"
  "list_calls (S3_listObjectVersions b k t # xs) = list_calls xs"
  "list_calls (S3_getBucketVersioning b # xs) = list_calls xs"
  by (simp_all add: list_calls_def)

lemma listObjects_list_calls:
  "listObjects b t w = (out, w') \<Longrightarrow> list_calls (trace w') = Suc (list_calls (trace w))"
  by (auto simp: listObjects_def emit_def Let_def split: sum.splits)

lemma deleteObjects_list_calls:
  "deleteObjects b ks w = (out, w') \<Longrightarrow> list_calls (trace w') = list_calls (trace w)"
  by (auto simp: deleteObjects_def emit_def Let_def split: option.splits)

lemma listObjectVersions_list_calls:
  "listObjectVersions b k t w = (out, w') \<Longrightarrow> list_calls (trace w') = list_calls (trace w)"
  by (auto simp: listObjectVersions_def emit_def Let_def split: sum.splits)

lemma versioned_listAndDelete_list_calls:
  "versioned_listAndDelete b k t w = (out, w') \<Longrightarrow> list_calls (trace w') = list_calls (trace w)"
  by (auto simp: versioned_listAndDelete_def Let_def
        split: outcome.splits option.splits prod.splits if_splits
        dest!: listObjectVersions_list_calls deleteObjects_list_calls)

lemma versioned_key_list_calls:
  "versioned_key b k w = (out, w') \<Longrightarrow> list_calls (trace w') = list_calls (trace w)"
  by (auto simp: versioned_key_def
        split: outcome.splits prod.splits if_splits
        dest!: versioned_listAndDelete_list_calls)

lemma versioned_keys_list_calls:
  "versioned_keys b ks w = (outs, w') \<Longrightarrow> list_calls (trace w') = list_calls (trace w)"
proof (induction ks arbitrary: w outs)
  case Nil
  then show ?case by simp
next
  case (Cons k ks)
  then show ?case
    by (auto split: prod.splits dest!: versioned_key_list_calls)
qed

lemma deleteVersionedObjects_list_calls:
  "deleteVersionedObjects b ks w = (out, w') \<Longrightarrow> list_calls (trace w') = list_calls (trace w)"
  by (auto simp: deleteVersionedObjects_def split: prod.splits dest!: versioned_keys_list_calls)

lemma listAndDelete_list_calls:
  "listAndDelete v b t w = (out, w') \<Longrightarrow> list_calls (trace w') = Suc (list_calls (trace w))"
  by (auto simp: listAndDelete_def Let_def
        split: outcome.splits option.splits prod.splits if_splits
        dest!: listObjects_list_calls deleteObjects_list_calls deleteVersionedObjects_list_calls)

lemma emptyBucket_at_most_two_pages:
  "emptyBucket b w = (out, w') \<Longrightarrow> list_calls (trace w') \<le> list_calls (trace w) + 2"
  by (auto simp: emptyBucket_def Let_def emit_def
        split: sum.splits outcome.splits prod.splits if_splits
        dest!: listAndDelete_list_calls)

subsection \<open>Single branches of the stack operations\<close>

lemma upsertStack_unreadable_template:
  assumes "normalize_options arg = options"
      and "containsTransforms options = None" and "readFileSync script w = Inl e"
  shows "upsertStack name script parameters arg w = (Thrown e, w)"
  using assms by (subst upsertStack.simps) simp

lemma upsertStack_probe_review:
  assumes "cf_describeStacks w = Inr data # replies" and "review options = Some True"
      and "w2 = w\<lparr>trace := trace w @ [CF_describeStacks (p_StackName params)],
                    cf_describeStacks := replies\<rparr>"
      and "preview = ''cf-utils-'' @ p_StackName params @ ''-preview''"
      and "createChangeSet (params\<lparr>p_ChangeSetName := Some preview\<rparr>) w2 = (Resolved cs, w3)"
  shows "upsertStack_probe options transforms params w =
           (case cs of
              None \<Rightarrow> pollStack (p_StackName params) w3
            | Some c \<Rightarrow>
                andThen (no_catch (deleteChangeSet (p_StackName params) preview (emit Prompt w3)))
                  (\<lambda>deleted w4.
                     if prompt_performUpdate w4 then executeUpdate transforms params w4
                     else (Rejected reviewer_rejected, w4)))"
proof -
  have "w\<lparr>trace := trace w @ [CF_describeStacks (p_StackName params)]\<rparr>
          \<lparr>cf_describeStacks := replies\<rparr> = w2"
    using assms(3) by simp
  then show ?thesis
    using assms(1,2,4,5)
    by (simp add: upsertStack_probe_def emit_def Let_def andThen_def no_catch_def
          split: option.splits)
qed

lemma emptyBucket_already_empty:
  assumes "s3_getBucketVersioning w bucketName = Inr status"
      and "s3_listObjectsV2 w bucketName None = Inr data"
      and "Contents data = Some [] \<or> Contents data = None"
  shows "emptyBucket bucketName w =
           (Resolved (),
            w\<lparr>trace := trace w @ [S3_getBucketVersioning bucketName,
                                   S3_listObjectsV2 bucketName None]\<rparr>)"
  using assms
  by (auto simp: emptyBucket_def listAndDelete_def listObjects_def emit_def truthy_string_def)

lemma deleteStack_describe_error:
  assumes "cf_describeStacks w = Inl err # replies"
  shows "deleteStack name w =
           (if indexOf (err_message err) ''does not exist'' \<noteq> 0 then Resolved None
            else Rejected (Err err),
            w\<lparr>trace := trace w @ [CF_describeStacks name], cf_describeStacks := replies\<rparr>)"
  using assms by (simp add: deleteStack_def emit_def truthy_number_def)

lemma upsertStack_template_guard:
  assumes "normalize_options arg = options"
      and "containsTransforms options = Some transforms"
      and "\<not> truthy_string (s3Bucket options)"
      and "take 10 script \<noteq> ''https://s3''" and "\<not> existsSync script w"
  shows "upsertStack name script parameters arg w = (Rejected (does_not_exist script), w)"
  using assms by (subst upsertStack.simps) (simp add: upsertStack_promise_def)


subsection \<open>Emptying a bucket\<close>

text \<open>
  C1. \<open>emptyBucket\<close> lists a page and deletes it in one batch, then follows the
  continuation token once: the token returned with the second page is dropped. On a bucket
  listed in three pages of 1000, 1000 and 42 objects it issues two list calls and two
  delete calls and resolves, with the third page never listed. Whatever the bucket, it
  issues at most two list calls (\<open>emptyBucket_at_most_two_pages\<close>); on an empty bucket
  it issues no delete call (\<open>emptyBucket_already_empty\<close>).
\<close>

theorem emptyBucket_three_pages_two_rounds:
  "emptyBucket ''assets'' three_pages =
     (Resolved (),
      three_pages\<lparr>trace :=
        [S3_getBucketVersioning ''assets'',
         S3_listObjectsV2 ''assets'' None,
         S3_deleteObjects ''assets'' (map (\<lambda>k. ObjectId k None) (page 0 1000)),
         S3_listObjectsV2 ''assets'' (Some ''t1''),
         S3_deleteObjects ''assets'' (map (\<lambda>k. ObjectId k None) (page 1000 1000))]\<rparr>) \<and>
   list_calls (trace (snd (emptyBucket ''assets'' three_pages))) = 2 \<and>
   delete_calls (trace (snd (emptyBucket ''assets'' three_pages))) = 2"
  by (simp add: emptyBucket_def listAndDelete_def listObjects_def deleteObjects_def emit_def
      three_pages_def quiet_def truthy_string_def page_def list_calls_def delete_calls_def)

subsection \<open>Terminal states of the stack poller\<close>

text \<open>
  C2, as amended. On a describe result whose status is \<open>CREATE_COMPLETE\<close> or
  \<open>UPDATE_COMPLETE\<close> both versions of \<open>pollStack\<close> resolve with the describe result; on
  \<open>ROLLBACK_COMPLETE\<close>, \<open>CREATE_FAILED\<close>, \<open>UPDATE_FAILED\<close>, \<open>DELETE_FAILED\<close> or
  \<open>UPDATE_ROLLBACK_COMPLETE\<close> they write the describe result to the warning log and reject
  with an \<open>Error\<close> whose only content is the message \<open>Stack operation failed\<close>. In both
  cases the describe call is the last one: no timer is set and no further reply is read.
\<close>

theorem pollStack_terminal_statuses:
  assumes "cf_describeStacks w = Inr data # replies" and "Stacks data = st # others"
  shows "(StackStatus st \<in> {''CREATE_COMPLETE'', ''UPDATE_COMPLETE''} \<longrightarrow>
            pollStack n w =
              (Resolved (Some data),
               w\<lparr>trace := trace w @ [CF_describeStacks n], cf_describeStacks := replies\<rparr>) \<and>
            src_pollStack n w =
              (Resolved (Some data),
               w\<lparr>trace := trace w @ [CF_describeStacks n], cf_describeStacks := replies\<rparr>)) \<and>
         (StackStatus st \<in> {''ROLLBACK_COMPLETE'', ''CREATE_FAILED'', ''UPDATE_FAILED'',
                             ''DELETE_FAILED'', ''UPDATE_ROLLBACK_COMPLETE''} \<longrightarrow>
            pollStack n w =
              (Rejected (Err (Error ''Error'' ''Stack operation failed'')),
               w\<lparr>trace := trace w @ [CF_describeStacks n, Logger_warn_StackDetails data],
                 cf_describeStacks := replies\<rparr>) \<and>
            src_pollStack n w =
              (Rejected (Err (Error ''Error'' ''Stack operation failed'')),
               w\<lparr>trace := trace w @ [CF_describeStacks n, Logger_warn_StackDetails data],
                 cf_describeStacks := replies\<rparr>))"
proof (intro conjI impI)
  assume "StackStatus st \<in> {''CREATE_COMPLETE'', ''UPDATE_COMPLETE''}"
  then have ok: "stack_success (StackStatus st)" by (auto simp: stack_success_def)
  show "pollStack n w =
          (Resolved (Some data),
           w\<lparr>trace := trace w @ [CF_describeStacks n], cf_describeStacks := replies\<rparr>)"
    using assms ok by (rule pollStack_terminal(1))
  show "src_pollStack n w =
          (Resolved (Some data),
           w\<lparr>trace := trace w @ [CF_describeStacks n], cf_describeStacks := replies\<rparr>)"
    using assms ok by (rule src_pollStack_terminal(1))
next
  assume "StackStatus st \<in> {''ROLLBACK_COMPLETE'', ''CREATE_FAILED'', ''UPDATE_FAILED'',
                             ''DELETE_FAILED'', ''UPDATE_ROLLBACK_COMPLETE''}"
  then have bad: "stack_failure (StackStatus st)" by (auto simp: stack_failure_def)
  show "pollStack n w =
          (Rejected (Err (Error ''Error'' ''Stack operation failed'')),
           w\<lparr>trace := trace w @ [CF_describeStacks n, Logger_warn_StackDetails data],
             cf_describeStacks := replies\<rparr>)"
    using assms bad by (rule pollStack_terminal(2))
  show "src_pollStack n w =
          (Rejected (Err (Error ''Error'' ''Stack operation failed'')),
           w\<lparr>trace := trace w @ [CF_describeStacks n, Logger_warn_StackDetails data],
             cf_describeStacks := replies\<rparr>)"
    using assms bad by (rule src_pollStack_terminal(2))
qed

text \<open>C2, witness: a stack in \<open>UPDATE_COMPLETE\<close> and a stack in \<open>CREATE_FAILED\<close>.\<close>

theorem pollStack_terminal_statuses_witness:
  "pollStack ''app-stack'' update_complete =
     (Resolved (Some (described ''UPDATE_COMPLETE'' [])),
      update_complete\<lparr>trace := [CF_describeStacks ''app-stack''], cf_describeStacks := []\<rparr>) \<and>
   src_pollStack ''app-stack'' create_failed =
     (Rejected (Err (Error ''Error'' ''Stack operation failed'')),
      create_failed\<lparr>trace := [CF_describeStacks ''app-stack'',
                                Logger_warn_StackDetails (described ''CREATE_FAILED'' [])],
        cf_describeStacks := []\<rparr>)"
  using pollStack_terminal_statuses
          [of update_complete "described ''UPDATE_COMPLETE'' []" "[]"
              "\<lparr>StackName = ''app-stack'', StackStatus = ''UPDATE_COMPLETE'', Outputs = []\<rparr>" "[]"
              "''app-stack''"]
        pollStack_terminal_statuses
          [of create_failed "described ''CREATE_FAILED'' []" "[]"
              "\<lparr>StackName = ''app-stack'', StackStatus = ''CREATE_FAILED'', Outputs = []\<rparr>" "[]"
              "''app-stack''"]
  by (simp add: update_complete_def create_failed_def quiet_def described_def)

text \<open>
  C2, counterexample to the claim as stated: two failed stacks with different details are
  rejected with the very same error, so the error does not carry the stack detail.
\<close>

theorem pollStack_rejection_without_detail_counterexample:
  "fst (pollStack ''app-stack'' create_failed) =
     Rejected (Err (Error ''Error'' ''Stack operation failed'')) \<and>
   fst (pollStack ''app-stack'' create_failed_with_outputs) =
     Rejected (Err (Error ''Error'' ''Stack operation failed'')) \<and>
   cf_describeStacks create_failed \<noteq> cf_describeStacks create_failed_with_outputs"
  by (simp add: pollStack.simps emit_def stack_success_def stack_failure_def
      stack_operation_failed_def create_failed_def create_failed_with_outputs_def quiet_def described_def)

subsection \<open>Terminal states of the change-set poller\<close>

text \<open>
  C3. In \<open>src/cloudFormation.js\<close> a change set in status \<open>FAILED\<close> whose reason is a
  template error resolves with an empty result instead of rejecting: the reason is tested
  with \<open>indexOf(...)\<close> for truthiness, and \<open>-1\<close> is truthy. (The other
  \<open>cloudFormation.js\<close> tests \<open>>= 0\<close> and rejects: \<open>pollChangeSet_settled\<close>.)
\<close>

theorem src_pollChangeSet_failed_template_error_resolves:
  "src_pollChangeSet (Some ''cf-utils-app-stack-preview'') ''app-stack'' changeset_failed =
     (Resolved None,
      changeset_failed
        \<lparr>trace := [CF_describeChangeSet (Some ''cf-utils-app-stack-preview'') ''app-stack''],
         cf_describeChangeSet := []\<rparr>) \<and>
   fst (pollChangeSet (Some ''cf-utils-app-stack-preview'') ''app-stack'' changeset_failed) =
     Rejected (Err (Error ''Error'' ''Changeset creation failed''))"
  by (simp add: src_pollChangeSet.simps pollChangeSet.simps emit_def truthy_number_def
      changeset_success_def changeset_creation_failed_def changeset_failed_def quiet_def
      a_change_set_def)

subsection \<open>Review of an existing stack\<close>

text \<open>
  C4. An upsert with review on an existing stack without drift: the preview change set is
  created, its status is read once (\<open>FAILED\<close>, "didn't contain changes"), and the stack
  is polled. No \<open>deleteChangeSet\<close> call is issued: the preview change set stays.
  (\<open>upsertStack_probe_review\<close> gives both branches: the change set is deleted only when it
  is populated.)
\<close>

theorem upsertStack_review_without_drift_keeps_preview:
  "upsertStack ''app-stack'' ''template.json'' [] review_options review_without_drift =
     (Resolved (Some (described ''UPDATE_COMPLETE'' [])),
      review_without_drift
        \<lparr>trace := [CF_describeStacks ''app-stack'', CF_createChangeSet preview_params,
                   CF_describeChangeSet (Some ''cf-utils-app-stack-preview'') ''app-stack'',
                   CF_describeStacks ''app-stack''],
         cf_describeStacks := [], cf_describeChangeSet := []\<rparr>) \<and>
   [(s, c). CF_deleteChangeSet s c \<leftarrow>
      trace (snd (upsertStack ''app-stack'' ''template.json'' [] review_options
                    review_without_drift))] = []"
  by (simp add: upsertStack.simps upsertStack_promise_def upsertStack_probe_def
      normalize_options_def readFileSync_def existsSync_def transform_at_def truthy_string_def
      createChangeSet_def pollChangeSet.simps pollStack.simps andThen_def no_catch_def emit_def
      changeset_success_def stack_success_def Let_def review_without_drift_def
      review_options_def preview_params_def no_changes_def quiet_def described_def
      a_change_set_def)

subsection \<open>Deleting a stack\<close>

text \<open>
  C5. \<open>deleteStack\<close> on a throttled describe call resolves as if the stack did not
  exist: the message is tested with \<open>indexOf('does not exist')\<close> for truthiness, and
  \<open>-1\<close> is truthy (\<open>deleteStack_describe_error\<close> gives every describe error).
\<close>

theorem deleteStack_throttled_resolves:
  "deleteStack ''app-stack'' throttled =
     (Resolved None,
      throttled\<lparr>trace := [CF_describeStacks ''app-stack''], cf_describeStacks := []\<rparr>)"
  by (simp add: deleteStack_def emit_def truthy_number_def throttled_def quiet_def)

subsection \<open>A template that is not there\<close>


subsection \<open>An update with nothing to update\<close>




subsection \<open>Deploying through the CLI\<close>



subsection \<open>Polling while an operation is in progress\<close>

text \<open>
  C9. As long as the replies show a status that is neither success nor failure, each
  poller (of both files) sets the 5000 ms timer and describes again, however many such replies there are:
  after any number of them it continues on the rest of the replies, and when there is no
  further reply it is still pending, never rejected.
\<close>

theorem pollers_retry_while_in_progress:
  assumes "cf_describeStacks w = pre @ rest" and "\<forall>r\<in>set pre. stack_in_progress r"
      and "cf_describeChangeSet w = cpre @ crest" and "\<forall>r\<in>set cpre. changeset_in_progress r"
  shows "pollStack n w =
           pollStack n (w\<lparr>trace := trace w @ stack_polls n (length pre),
                          cf_describeStacks := rest\<rparr>) \<and>
         (rest = [] \<longrightarrow>
            pollStack n w =
              (Pending, w\<lparr>trace := trace w @ stack_polls n (length pre) @ [CF_describeStacks n],
                          cf_describeStacks := []\<rparr>)) \<and>
         pollChangeSet c n w =
           pollChangeSet c n (w\<lparr>trace := trace w @ changeset_polls c n (length cpre),
                               cf_describeChangeSet := crest\<rparr>) \<and>
         (crest = [] \<longrightarrow>
            pollChangeSet c n w =
              (Pending,
               w\<lparr>trace := trace w @ changeset_polls c n (length cpre) @ [CF_describeChangeSet c n],
                 cf_describeChangeSet := []\<rparr>)) \<and>
         src_pollStack n w =
           src_pollStack n (w\<lparr>trace := trace w @ stack_polls n (length pre),
                              cf_describeStacks := rest\<rparr>) \<and>
         (rest = [] \<longrightarrow>
            src_pollStack n w =
              (Pending, w\<lparr>trace := trace w @ stack_polls n (length pre) @ [CF_describeStacks n],
                          cf_describeStacks := []\<rparr>)) \<and>
         src_pollChangeSet c n w =
           src_pollChangeSet c n (w\<lparr>trace := trace w @ changeset_polls c n (length cpre),
                                   cf_describeChangeSet := crest\<rparr>) \<and>
         (crest = [] \<longrightarrow>
            src_pollChangeSet c n w =
              (Pending,
               w\<lparr>trace := trace w @ changeset_polls c n (length cpre) @ [CF_describeChangeSet c n],
                 cf_describeChangeSet := []\<rparr>))"
proof -
  have s: "pollStack n w =
             pollStack n (w\<lparr>trace := trace w @ stack_polls n (length pre),
                            cf_describeStacks := rest\<rparr>)"
    using assms(1,2) by (rule pollStack_in_progress_prefix)
  have c: "pollChangeSet c n w =
             pollChangeSet c n (w\<lparr>trace := trace w @ changeset_polls c n (length cpre),
                                 cf_describeChangeSet := crest\<rparr>)"
    using assms(3,4) by (rule pollChangeSet_in_progress_prefix)
  have s0: "pollStack n w =
              (Pending, w\<lparr>trace := trace w @ stack_polls n (length pre) @ [CF_describeStacks n],
                          cf_describeStacks := []\<rparr>)" if "rest = []"
    using that by (subst s) (simp add: pollStack_out_of_replies emit_def)
  have c0: "pollChangeSet c n w =
              (Pending,
               w\<lparr>trace := trace w @ changeset_polls c n (length cpre) @ [CF_describeChangeSet c n],
                 cf_describeChangeSet := []\<rparr>)" if "crest = []"
    using that by (subst c) (simp add: pollChangeSet_out_of_replies emit_def)
  have s': "src_pollStack n w =
             src_pollStack n (w\<lparr>trace := trace w @ stack_polls n (length pre),
                                cf_describeStacks := rest\<rparr>)"
    using assms(1,2) by (rule src_pollStack_in_progress_prefix)
  have c': "src_pollChangeSet c n w =
             src_pollChangeSet c n (w\<lparr>trace := trace w @ changeset_polls c n (length cpre),
                                     cf_describeChangeSet := crest\<rparr>)"
    using assms(3,4) by (rule src_pollChangeSet_in_progress_prefix)
  have s0': "src_pollStack n w =
              (Pending, w\<lparr>trace := trace w @ stack_polls n (length pre) @ [CF_describeStacks n],
                          cf_describeStacks := []\<rparr>)" if "rest = []"
    using that by (subst s') (simp add: src_pollStack_out_of_replies emit_def)
  have c0': "src_pollChangeSet c n w =
              (Pending,
               w\<lparr>trace := trace w @ changeset_polls c n (length cpre) @ [CF_describeChangeSet c n],
                 cf_describeChangeSet := []\<rparr>)" if "crest = []"
    using that by (subst c') (simp add: src_pollChangeSet_out_of_replies emit_def)
  from s c s0 c0 s' c' s0' c0' show ?thesis by blast
qed

text \<open>C9, witness: two replies in progress, then \<open>CREATE_COMPLETE\<close>.\<close>

theorem pollers_retry_while_in_progress_witness:
  "pollStack ''app-stack'' creating =
     (Resolved (Some (described ''CREATE_COMPLETE'' [])),
      creating\<lparr>trace := [CF_describeStacks ''app-stack'', SetTimeout 5000,
                          CF_describeStacks ''app-stack'', SetTimeout 5000,
                          CF_describeStacks ''app-stack''],
        cf_describeStacks := []\<rparr>) \<and>
   pollChangeSet (Some ''cf-utils-app-stack-preview'') ''app-stack'' creating =
     (Resolved (Some (a_change_set ''CREATE_COMPLETE'' None)),
      creating\<lparr>trace := [CF_describeChangeSet (Some ''cf-utils-app-stack-preview'') ''app-stack'',
                          SetTimeout 5000,
                          CF_describeChangeSet (Some ''cf-utils-app-stack-preview'') ''app-stack'',
                          SetTimeout 5000,
                          CF_describeChangeSet (Some ''cf-utils-app-stack-preview'') ''app-stack''],
        cf_describeChangeSet := []\<rparr>)"
  using pollers_retry_while_in_progress
          [of creating
              "[Inr (described ''CREATE_IN_PROGRESS'' []), Inr (described ''CREATE_IN_PROGRESS'' [])]"
              "[Inr (described ''CREATE_COMPLETE'' [])]"
              "[Inr (a_change_set ''CREATE_PENDING'' None),
                Inr (a_change_set ''CREATE_IN_PROGRESS'' None)]"
              "[Inr (a_change_set ''CREATE_COMPLETE'' None)]"
              "''app-stack''" "Some ''cf-utils-app-stack-preview''"]
  by (simp add: stack_in_progress_def changeset_in_progress_def stack_success_def
      stack_failure_def changeset_success_def stack_polls_def changeset_polls_def
      pollStack.simps pollChangeSet.simps emit_def creating_def quiet_def described_def a_change_set_def)

subsection \<open>Staging the template without a prefix\<close>

text \<open>
  C10. With \<open>s3Bucket\<close> set and \<open>s3Prefix\<close> omitted, the template is uploaded under the
  key \<open>undefined\<close> followed by the script path, and \<open>upsertStack\<close> then calls itself on
  the URL of that key. (The upload is reached when \<open>containsTransforms\<close> is given or the
  template can be read.)
\<close>

theorem upsertStack_undefined_prefix:
  assumes "normalize_options arg = options"
      and "s3Bucket options = Some bucket" and "bucket \<noteq> []"
      and "s3Prefix options = None"
      and "containsTransforms options = Some transforms \<or>
           (containsTransforms options = None \<and> readFileSync script w = Inr content \<and>
            transforms = transform_test content)"
  shows "upsertStack name script parameters arg w =
           (case s3_upload w of
              Some err \<Rightarrow>
                (Rejected (Err err), emit (S3_upload bucket (''undefined'' @ script) script) w)
            | None \<Rightarrow>
                upsertStack name
                  (''https://s3.amazonaws.com/'' @ bucket @ ''/undefined'' @ script)
                  parameters
                  (Options \<lparr>review = Some (review options = Some True), s3Bucket = None,
                            s3Prefix = None, containsTransforms = Some transforms\<rparr>)
                  (emit (S3_upload bucket (''undefined'' @ script) script) w))"
  using assms
  by (subst upsertStack.simps)
     (auto simp: truthy_string_def template_string_def putS3Object_def emit_def Let_def
           split: option.splits)

text \<open>C10, witness: a new stack, created from the URL of the key \<open>undefinedtemplate.json\<close>.\<close>

theorem upsertStack_undefined_prefix_witness:
  "upsertStack ''app-stack'' ''template.json'' [] bucket_only_options staging_new_stack =
     (Resolved (Some (described ''CREATE_COMPLETE'' [])),
      staging_new_stack
        \<lparr>trace := [S3_upload ''templates'' ''undefinedtemplate.json'' ''template.json'',
                   CF_describeStacks ''app-stack'', CF_createStack staged_params,
                   CF_describeStacks ''app-stack''],
         cf_describeStacks := []\<rparr>)"
  using upsertStack_undefined_prefix
          [of bucket_only_options
              "\<lparr>review = None, s3Bucket = Some ''templates'', s3Prefix = None,
                containsTransforms = None\<rparr>"
              "''templates''" False "''template.json''" staging_new_stack "''{}''"
              "''app-stack''" "[]"]
  by (simp add: upsertStack.simps upsertStack_promise_def upsertStack_probe_def
      normalize_options_def readFileSync_def transform_at_def truthy_string_def
      createStack_def pollStack.simps emit_def stack_success_def Let_def bucket_only_options_def staging_new_stack_def with_template_def staged_params_def quiet_def described_def)

end
